theory Spec2Isabelle
  imports Complex_Main
begin

section \<open>Values: float64 cells, idealised\<close>

text \<open>
  The numeric columns of the program are pandas float64 series. A cell is modelled as an
  exact real number or one of the three IEEE special values. Rounding is not modelled:
  finite arithmetic is exact. The two IEEE zeros are identified; a nonzero finite value
  divided by zero is the infinity carrying the sign of the numerator.
  \<open>NaN\<close> is pandas' marker of a missing value.
\<close>

datatype fval = Fin real | PInf | NInf | NaN

fun fneg :: "fval \<Rightarrow> fval" where
  "fneg (Fin a) = Fin (- a)"
| "fneg PInf = NInf"
| "fneg NInf = PInf"
| "fneg NaN = NaN"

fun fadd :: "fval \<Rightarrow> fval \<Rightarrow> fval" where
  "fadd (Fin a) (Fin b) = Fin (a + b)"
| "fadd NaN _ = NaN"
| "fadd _ NaN = NaN"
| "fadd PInf NInf = NaN"
| "fadd NInf PInf = NaN"
| "fadd PInf _ = PInf"
| "fadd _ PInf = PInf"
| "fadd NInf _ = NInf"
| "fadd _ NInf = NInf"

definition fsub :: "fval \<Rightarrow> fval \<Rightarrow> fval" where
  "fsub a b = fadd a (fneg b)"

fun fdiv :: "fval \<Rightarrow> fval \<Rightarrow> fval" where
  "fdiv (Fin a) (Fin b) =
     (if b \<noteq> 0 then Fin (a / b)
      else if a = 0 then NaN
      else if 0 < a then PInf else NInf)"
| "fdiv NaN _ = NaN"
| "fdiv _ NaN = NaN"
| "fdiv (Fin a) PInf = Fin 0"
| "fdiv (Fin a) NInf = Fin 0"
| "fdiv PInf (Fin b) = (if 0 \<le> b then PInf else NInf)"
| "fdiv NInf (Fin b) = (if 0 \<le> b then NInf else PInf)"
| "fdiv PInf PInf = NaN"
| "fdiv PInf NInf = NaN"
| "fdiv NInf PInf = NaN"
| "fdiv NInf NInf = NaN"

text \<open>Comparisons with a scalar: any comparison with \<open>NaN\<close> is false.\<close>

fun fgt :: "fval \<Rightarrow> real \<Rightarrow> bool" where
  "fgt (Fin a) c = (c < a)"
| "fgt PInf c = True"
| "fgt NInf c = False"
| "fgt NaN c = False"

fun flt :: "fval \<Rightarrow> real \<Rightarrow> bool" where
  "flt (Fin a) c = (a < c)"
| "flt PInf c = False"
| "flt NInf c = True"
| "flt NaN c = False"

text \<open>\<open>a < b\<close> on two cells, as Python evaluates it on two floats.\<close>

fun fless :: "fval \<Rightarrow> fval \<Rightarrow> bool" where
  "fless NaN _ = False"
| "fless _ NaN = False"
| "fless (Fin a) (Fin b) = (a < b)"
| "fless (Fin a) PInf = True"
| "fless (Fin a) NInf = False"
| "fless PInf _ = False"
| "fless NInf NInf = False"
| "fless NInf _ = True"

fun notna :: "fval \<Rightarrow> bool" where
  "notna NaN = False"
| "notna _ = True"

section \<open>Series operations used by the program\<close>

text \<open>
  \<open>Series.ewm(span=s, adjust=False).mean()\<close> on a series without missing values:
  \<open>y\<^sub>0 = x\<^sub>0\<close> and \<open>y\<^sub>t = (1 - \<alpha>) y\<^sub>t\<^sub>-\<^sub>1 + \<alpha> x\<^sub>t\<close> with \<open>\<alpha> = 2 / (s + 1)\<close>.
\<close>

fun ewm_from :: "real \<Rightarrow> real \<Rightarrow> real list \<Rightarrow> real list" where
  "ewm_from a y [] = []"
| "ewm_from a y (x # xs) = ((1 - a) * y + a * x) # ewm_from a ((1 - a) * y + a * x) xs"

definition ewm_mean :: "nat \<Rightarrow> real list \<Rightarrow> real list" where
  "ewm_mean spn xs =
     (case xs of [] \<Rightarrow> [] | x # rest \<Rightarrow> x # ewm_from (2 / (real spn + 1)) x rest)"

text \<open>\<open>a - b\<close> on two series of the same index.\<close>

definition series_sub :: "real list \<Rightarrow> real list \<Rightarrow> real list" where
  "series_sub xs ys = map (\<lambda>(x, y). x - y) (zip xs ys)"

text \<open>\<open>Series.diff()\<close>: the first cell is missing, cell \<open>i\<close> is \<open>x\<^sub>i - x\<^sub>i\<^sub>-\<^sub>1\<close>.\<close>

definition diff :: "real list \<Rightarrow> fval list" where
  "diff xs =
     (case xs of [] \<Rightarrow> [] | x # rest \<Rightarrow> NaN # map (\<lambda>(a, b). Fin (b - a)) (zip xs rest))"

text \<open>\<open>s.where(cond, other)\<close>: keep the cell where \<open>cond\<close> holds, else \<open>other\<close>.\<close>

definition series_where :: "fval list \<Rightarrow> bool list \<Rightarrow> fval \<Rightarrow> fval list" where
  "series_where xs cond other = map (\<lambda>(x, c). if c then x else other) (zip xs cond)"

text \<open>
  \<open>s.rolling(w).mean()\<close>: the window at index \<open>i\<close> holds the cells \<open>i - w + 1 .. i\<close>
  that exist; \<open>min_periods\<close> defaults to \<open>w\<close>, so the mean is missing unless the window
  holds \<open>w\<close> cells that are not missing; otherwise it is the mean of those cells.
\<close>

definition window_mean :: "nat \<Rightarrow> fval list \<Rightarrow> fval" where
  "window_mean w win =
     (let obs = filter notna win in
      if length obs \<ge> w \<and> 0 < length obs
      then fdiv (foldl fadd (Fin 0) obs) (Fin (real (length obs)))
      else NaN)"

definition rolling_mean :: "nat \<Rightarrow> fval list \<Rightarrow> fval list" where
  "rolling_mean w xs =
     map (\<lambda>i. window_mean w (drop (Suc i - w) (take (Suc i) xs))) [0..<length xs]"

section \<open>Data frames and the object store\<close>

text \<open>
  A data frame of this program has the two base columns built by
  \<open>get_price_history\<close> (the timestamp column and the price column, one pair per row)
  and the five indicator columns, each present or absent.
\<close>

record dataframe =
  base :: "(int \<times> real) list"
  col_EMA12 :: "real list option"
  col_EMA26 :: "real list option"
  col_MACD :: "real list option"
  col_Signal :: "real list option"
  col_RSI :: "fval list option"

definition col_timestamp :: "dataframe \<Rightarrow> int list" where
  "col_timestamp d = map fst (base d)"

definition col_price :: "dataframe \<Rightarrow> real list" where
  "col_price d = map snd (base d)"

definition new_frame :: "(int \<times> real) list \<Rightarrow> dataframe" where
  "new_frame rows =
     \<lparr>base = rows, col_EMA12 = None, col_EMA26 = None, col_MACD = None,
      col_Signal = None, col_RSI = None\<rparr>"

datatype error = KeyError | IndexError | TypeError | ValueError | RequestException

text \<open>
  Python variables hold references. The store is the list of the frames allocated so
  far; a reference is an index into it.
\<close>

type_synonym ref = nat
type_synonym heap = "dataframe list"

definition df_copy :: "ref \<Rightarrow> heap \<Rightarrow> ref \<times> heap" where
  "df_copy r h = (length h, h @ [h ! r])"

definition getitem :: "(dataframe \<Rightarrow> 'a option) \<Rightarrow> ref \<Rightarrow> heap \<Rightarrow> error + 'a" where
  "getitem col r h = (case col (h ! r) of None \<Rightarrow> Inl KeyError | Some v \<Rightarrow> Inr v)"

definition setitem ::
  "(('a option \<Rightarrow> 'a option) \<Rightarrow> dataframe \<Rightarrow> dataframe) \<Rightarrow> ref \<Rightarrow> 'a \<Rightarrow> heap \<Rightarrow> heap" where
  "setitem upd r v h = h[r := upd (\<lambda>_. Some v) (h ! r)]"

definition bind_err :: "error + 'a \<Rightarrow> ('a \<Rightarrow> error + 'b) \<Rightarrow> error + 'b" where
  "bind_err m f = (case m of Inl e \<Rightarrow> Inl e | Inr v \<Rightarrow> f v)"

section \<open>The indicator engine: \<open>calculate_macd_rsi\<close>\<close>

definition rsi_of :: "fval \<Rightarrow> fval" where
  "rsi_of rs = fsub (Fin 100) (fdiv (Fin 100) (fadd (Fin 1) rs))"

text \<open>
  Lines 45 to 51 of the source compute the RSI column from the price column alone;
  the intermediate series are local variables of \<open>calculate_macd_rsi\<close>.
\<close>

definition gain_series :: "fval list \<Rightarrow> fval list" where
  "gain_series delta = series_where delta (map (\<lambda>d. fgt d 0) delta) (Fin 0)"

definition loss_series :: "fval list \<Rightarrow> fval list" where
  "loss_series delta = map fneg (series_where delta (map (\<lambda>d. flt d 0) delta) (Fin 0))"

definition rsi_series :: "real list \<Rightarrow> fval list" where
  "rsi_series price =
     (let delta = diff price;
          gain = gain_series delta;
          loss = loss_series delta;
          avg_gain = rolling_mean 14 gain;
          avg_loss = rolling_mean 14 loss;
          rs = map (\<lambda>(g, l). fdiv g l) (zip avg_gain avg_loss)
      in map rsi_of rs)"

definition calculate_macd_rsi :: "ref \<Rightarrow> heap \<Rightarrow> error + (ref \<times> heap)" where
  "calculate_macd_rsi df0 h0 =
     (let (df, h) = df_copy df0 h0;
          h = setitem col_EMA12_update df (ewm_mean 12 (col_price (h ! df))) h;
          h = setitem col_EMA26_update df (ewm_mean 26 (col_price (h ! df))) h
      in bind_err (getitem col_EMA12 df h) (\<lambda>ema12.
         bind_err (getitem col_EMA26 df h) (\<lambda>ema26.
         let h = setitem col_MACD_update df (series_sub ema12 ema26) h
         in bind_err (getitem col_MACD df h) (\<lambda>macd.
         let h = setitem col_Signal_update df (ewm_mean 9 macd) h;
             h = setitem col_RSI_update df (rsi_series (col_price (h ! df))) h
         in Inr (df, h)))))"

section \<open>The market data fetcher: \<open>get_price_history\<close>\<close>

text \<open>
  The value that \<open>res.json()\<close> returns. A dictionary is the list of its items.
\<close>

datatype json =
    JNull | JBool bool | JInt int | JReal real | JStr string
  | JArr "json list" | JObj "(string \<times> json) list"

text \<open>
  What \<open>requests.get\<close> does is the environment's choice: it raises (connection
  error, timeout), or it returns a response with a status code and a body, which is a
  JSON document or not. The environment is a function of the request's parameters.
\<close>

record response =
  status_code :: nat
  body :: "json option"

datatype request_outcome = Raises | Returns response

type_synonym provider = "string \<Rightarrow> int \<Rightarrow> string \<Rightarrow> request_outcome"

definition requests_get :: "provider \<Rightarrow> string \<Rightarrow> int \<Rightarrow> string \<Rightarrow> error + response" where
  "requests_get net coin_id days vs_currency =
     (case net coin_id days vs_currency of
        Raises \<Rightarrow> Inl RequestException
      | Returns res \<Rightarrow> Inr res)"

definition res_json :: "response \<Rightarrow> error + json" where
  "res_json res = (case body res of None \<Rightarrow> Inl ValueError | Some data \<Rightarrow> Inr data)"

text \<open>\<open>data[key]\<close> with a string key: only a dictionary that has the key answers.\<close>

fun py_subscript :: "json \<Rightarrow> string \<Rightarrow> error + json" where
  "py_subscript (JObj items) key =
     (case map_of items key of None \<Rightarrow> Inl KeyError | Some v \<Rightarrow> Inr v)"
| "py_subscript _ key = Inl TypeError"

text \<open>
  \<open>pd.DataFrame(v, columns=[timestamp, price])\<close> followed by
  \<open>pd.to_datetime(..., unit='ms')\<close>. On a list of pairs \<open>[t, p]\<close>, with \<open>t\<close> an integer
  number of milliseconds inside the range of pandas timestamps and \<open>p\<close> a float or a
  64-bit integer, the result is the frame of these rows; the empty list gives the frame
  with no row. On \<open>None\<close> (JSON \<open>null\<close>) the constructor builds the frame with the two
  columns and no row. On a scalar (a boolean, a number, a string) it raises
  \<open>ValueError\<close>. What pandas does on any other value is the parameter \<open>pd_other\<close>.
\<close>

fun row_of :: "json \<Rightarrow> (int \<times> real) option" where
  "row_of (JArr [JInt t, JReal p]) = Some (t, p)"
| "row_of (JArr [JInt t, JInt p]) =
     (if - (2 ^ 63) \<le> p \<and> p < 2 ^ 63 then Some (t, of_int p) else None)"
| "row_of _ = None"

fun rows_of :: "json \<Rightarrow> (int \<times> real) list option" where
  "rows_of (JArr rows) = those (map row_of rows)"
| "rows_of _ = None"

definition in_datetime_range :: "int \<Rightarrow> bool" where
  "in_datetime_range t = (- 9223372036854 \<le> t \<and> t \<le> 9223372036854)"

definition pd_DataFrame :: "(json \<Rightarrow> error + dataframe) \<Rightarrow> json \<Rightarrow> error + dataframe" where
  "pd_DataFrame pd_other v =
     (case v of
        JNull \<Rightarrow> Inr (new_frame [])
      | JBool b \<Rightarrow> Inl ValueError
      | JInt n \<Rightarrow> Inl ValueError
      | JReal x \<Rightarrow> Inl ValueError
      | JStr s \<Rightarrow> Inl ValueError
      | _ \<Rightarrow>
         (case rows_of v of
            Some rows \<Rightarrow>
              if list_all (\<lambda>(t, p). in_datetime_range t) rows then Inr (new_frame rows)
              else pd_other v
          | None \<Rightarrow> pd_other v))"

text \<open>
  The body of the \<open>try\<close> block, then the handler: every exception becomes \<open>None\<close>
  (the line written to the log file is not modelled). A frame that is built is a new
  object of the store.
\<close>

definition get_price_history ::
  "(json \<Rightarrow> error + dataframe) \<Rightarrow> provider \<Rightarrow> string \<Rightarrow> int \<Rightarrow> string \<Rightarrow> heap
     \<Rightarrow> ref option \<times> heap" where
  "get_price_history pd_other net coin_id days vs_currency h =
     (case bind_err (requests_get net coin_id days vs_currency) (\<lambda>res.
           bind_err (res_json res) (\<lambda>data.
           bind_err (py_subscript data ''prices'') (\<lambda>v.
           pd_DataFrame pd_other v))) of
        Inl e \<Rightarrow> (None, h)
      | Inr df \<Rightarrow> (Some (length h), h @ [df]))"

section \<open>The history record: \<open>save_history\<close>\<close>

text \<open>The two labels are the UTF-8 bytes of the source's string literals.\<close>

definition buy_label :: string where
  "buy_label = [CHR 0xE8, CHR 0xB2, CHR 0xB7, CHR 0xE9, CHR 0x80, CHR 0xB2]"

definition sell_label :: string where
  "sell_label = [CHR 0xE8, CHR 0xB3, CHR 0xA3, CHR 0xE5, CHR 0x87, CHR 0xBA]"

record history_row =
  h_coin :: string
  h_id :: string
  h_time :: string
  h_latest :: real
  h_ma5 :: fval
  h_action :: string

text \<open>\<open>s.iloc[-1]\<close>: the last cell; \<open>IndexError\<close> on a series with no cell.\<close>

definition iloc_last :: "'a list \<Rightarrow> error + 'a" where
  "iloc_last xs = (if xs = [] then Inl IndexError else Inr (last xs))"

text \<open>
  The recommendation is decided by a comparison of two float64 cells, the latest price
  and the last cell of \<open>rolling(5).mean()\<close>, and rounding inside the mean can decide a
  near tie. So here the mean of a full window is not idealised: it is the parameter
  \<open>f64_mean\<close>, the cell that pandas' running sums give for the window of width \<open>w\<close>
  that ends the given prefix of the series. Which cells are missing is as in
  \<open>rolling_mean\<close>.
\<close>

definition rolling_mean_f64 ::
  "(nat \<Rightarrow> fval list \<Rightarrow> fval) \<Rightarrow> nat \<Rightarrow> fval list \<Rightarrow> fval list" where
  "rolling_mean_f64 f64_mean w xs =
     map (\<lambda>i. let obs = filter notna (drop (Suc i - w) (take (Suc i) xs)) in
              if length obs \<ge> w \<and> 0 < length obs then f64_mean w (take (Suc i) xs)
              else NaN)
         [0..<length xs]"

text \<open>
  The history file is absent or holds the rows written so far. The query time is what
  the clock says, a parameter.
\<close>

definition save_history ::
  "(nat \<Rightarrow> fval list \<Rightarrow> fval) \<Rightarrow> string \<Rightarrow> string \<Rightarrow> string \<Rightarrow> ref \<Rightarrow> heap
     \<Rightarrow> history_row list option \<Rightarrow> error + history_row list option" where
  "save_history f64_mean now coin_id coin_name df h file =
     bind_err (iloc_last (col_price (h ! df))) (\<lambda>latest.
     bind_err (iloc_last (rolling_mean_f64 f64_mean 5 (map Fin (col_price (h ! df))))) (\<lambda>ma5.
     bind_err (iloc_last (col_price (h ! df))) (\<lambda>p.
     bind_err (iloc_last (rolling_mean_f64 f64_mean 5 (map Fin (col_price (h ! df))))) (\<lambda>m.
     let record = \<lparr>h_coin = coin_name, h_id = coin_id, h_time = now,
                    h_latest = latest, h_ma5 = ma5,
                    h_action = (if fless (Fin p) m then buy_label else sell_label)\<rparr>
     in Inr (Some (case file of None \<Rightarrow> [record] | Some old \<Rightarrow> old @ [record]))))))"

section \<open>The query of the dashboard\<close>

definition buy_advice :: string where
  "buy_advice =
     [CHR 0xE2, CHR 0x9C, CHR 0x85, CHR 0x20, CHR 0xE5, CHR 0xBB, CHR 0xBA, CHR 0xE8,
      CHR 0xAD, CHR 0xB0, CHR 0xE8, CHR 0xB2, CHR 0xB7, CHR 0xE9, CHR 0x80, CHR 0xB2]"

definition sell_advice :: string where
  "sell_advice =
     [CHR 0xF0, CHR 0x9F, CHR 0x92, CHR 0xB0, CHR 0x20, CHR 0xE5, CHR 0xBB, CHR 0xBA, CHR 0xE8,
      CHR 0xAD, CHR 0xB0, CHR 0xE8, CHR 0xB3, CHR 0xA3, CHR 0xE5, CHR 0x87, CHR 0xBA]"

text \<open>
  What the page shows after the query button: the failure message, or the latest price,
  the 5-sample mean and the advice. Charts and alerts are not modelled.
\<close>

datatype screen = QueryFailed | Analysis real fval string

definition run_query ::
  "(nat \<Rightarrow> fval list \<Rightarrow> fval) \<Rightarrow> (json \<Rightarrow> error + dataframe) \<Rightarrow> provider \<Rightarrow> string \<Rightarrow> string
     \<Rightarrow> string \<Rightarrow> int \<Rightarrow> heap \<Rightarrow> history_row list option
     \<Rightarrow> error + (screen \<times> heap \<times> history_row list option)" where
  "run_query f64_mean pd_other net now coin_id coin_name days h0 file =
     (let (df, h) = get_price_history pd_other net coin_id days ''usd'' h0 in
      case df of
        None \<Rightarrow> Inr (QueryFailed, h, file)
      | Some r \<Rightarrow>
          if base (h ! r) = [] then Inr (QueryFailed, h, file)
          else
            bind_err (calculate_macd_rsi r h) (\<lambda>(df, h).
            bind_err (iloc_last (col_price (h ! df))) (\<lambda>latest_price.
            bind_err (iloc_last (rolling_mean_f64 f64_mean 5 (map Fin (col_price (h ! df)))))
              (\<lambda>ma5.
            let action = (if fless (Fin latest_price) ma5 then buy_advice else sell_advice)
            in bind_err (save_history f64_mean now coin_id coin_name df h file) (\<lambda>file'.
               Inr (Analysis latest_price ma5 action, h, file'))))))"

section \<open>The indicator formulas as the specification words them\<close>

text \<open>
  The specification's RSI: \<open>\<Delta>[i] = price[i] - price[i - 1]\<close> for \<open>i \<ge> 1\<close>,
  \<open>gain[i] = max(\<Delta>[i], 0)\<close>, \<open>loss[i] = max(- \<Delta>[i], 0)\<close>, the averages are the
  simple means of the trailing 14 deltas, \<open>rs = avg_gain / avg_loss\<close> and
  \<open>rsi = 100 - 100 / (1 + rs)\<close>; where \<open>avg_loss = 0\<close> the value is 100 if
  \<open>avg_gain > 0\<close> and undefined otherwise.
\<close>

definition spec_delta :: "real list \<Rightarrow> nat \<Rightarrow> real" where
  "spec_delta p i = p ! i - p ! (i - 1)"

definition spec_gain :: "real list \<Rightarrow> nat \<Rightarrow> real" where
  "spec_gain p i = max (spec_delta p i) 0"

definition spec_loss :: "real list \<Rightarrow> nat \<Rightarrow> real" where
  "spec_loss p i = max (- spec_delta p i) 0"

definition spec_avg :: "(nat \<Rightarrow> real) \<Rightarrow> nat \<Rightarrow> real" where
  "spec_avg f i = sum_list (map f [i - 13..<Suc i]) / 14"

definition spec_rsi :: "real \<Rightarrow> real \<Rightarrow> fval" where
  "spec_rsi avg_gain avg_loss =
     (if avg_loss = 0 then (if 0 < avg_gain then Fin 100 else NaN)
      else Fin (100 - 100 / (1 + avg_gain / avg_loss)))"

text \<open>
  Cell \<open>i\<close> of the local series \<open>gain\<close> and \<open>loss\<close> of the source: the first delta is
  missing, both comparisons are false on it, and \<open>where\<close> puts 0 there.
\<close>

definition gain_cell :: "real list \<Rightarrow> nat \<Rightarrow> real" where
  "gain_cell p i = (if i = 0 then 0 else spec_gain p i)"

definition loss_cell :: "real list \<Rightarrow> nat \<Rightarrow> real" where
  "loss_cell p i = (if i = 0 then 0 else spec_loss p i)"

section \<open>Reading a cell of the result\<close>

text \<open>
  \<open>s.iloc[i]\<close> for \<open>i \<ge> 0\<close>, and
  \<open>calculate_macd_rsi(df)[col].iloc[i]\<close> for a frame \<open>df\<close> of the given rows that is
  the only object of the store.
\<close>

definition iloc :: "'a list \<Rightarrow> nat \<Rightarrow> error + 'a" where
  "iloc xs i = (if i < length xs then Inr (xs ! i) else Inl IndexError)"

definition indicator_cell ::
  "(dataframe \<Rightarrow> 'a list option) \<Rightarrow> (int \<times> real) list \<Rightarrow> nat \<Rightarrow> error + 'a" where
  "indicator_cell col rows i =
     bind_err (calculate_macd_rsi 0 [new_frame rows]) (\<lambda>(r, h).
     bind_err (getitem col r h) (\<lambda>s. iloc s i))"

section \<open>Concrete environments\<close>

text \<open>
  Values for the parameters in closed statements. \<open>always\<close> is a provider that answers
  every request the same way. \<open>pd_raises\<close> stands for the parameter \<open>pd_other\<close> on
  inputs that never reach it. \<open>exact_mean\<close> is the mean without rounding; it is the
  float64 mean on windows of small integers, whose sums and quotients are exact.
\<close>

definition always :: "request_outcome \<Rightarrow> provider" where
  "always out = (\<lambda>coin_id days vs_currency. out)"

definition pd_raises :: "json \<Rightarrow> error + dataframe" where
  "pd_raises v = Inl ValueError"

definition exact_mean :: "nat \<Rightarrow> fval list \<Rightarrow> fval" where
  "exact_mean w pre = window_mean w (drop (length pre - w) pre)"

section \<open>Facts about the series operations\<close>

lemma length_ewm_from: "length (ewm_from a y xs) = length xs"
  by (induction xs arbitrary: y) simp_all

lemma length_ewm_mean: "length (ewm_mean s xs) = length xs"
  by (simp add: ewm_mean_def length_ewm_from split: list.splits)

lemma ewm_from_nth:
  "i < length xs \<Longrightarrow>
     ewm_from a y xs ! i = (1 - a) * (if i = 0 then y else ewm_from a y xs ! (i - 1)) + a * xs ! i"
proof (induction xs arbitrary: y i)
  case Nil
  then show ?case by simp
next
  case (Cons x xs)
  show ?case
  proof (cases i)
    case 0
    then show ?thesis by simp
  next
    case (Suc j)
    with Cons.prems have "j < length xs" by simp
    from Cons.IH[OF this, of "(1 - a) * y + a * x"] Suc show ?thesis
      by (cases j) simp_all
  qed
qed

lemma ewm_mean_0: "xs \<noteq> [] \<Longrightarrow> ewm_mean s xs ! 0 = xs ! 0"
  by (cases xs) (simp_all add: ewm_mean_def)

lemma ewm_mean_step:
  assumes "0 < i" "i < length xs"
  shows "ewm_mean s xs ! i =
     (2 / (real s + 1)) * xs ! i + (1 - 2 / (real s + 1)) * ewm_mean s xs ! (i - 1)"
proof (cases xs)
  case Nil
  with assms show ?thesis by simp
next
  case (Cons x rest)
  from assms obtain j where j: "i = Suc j" by (cases i) auto
  with assms Cons have "j < length rest" by simp
  from ewm_from_nth[OF this, of "2 / (real s + 1)" x] j Cons show ?thesis
    by (cases j) (simp_all add: ewm_mean_def)
qed

lemma length_series_sub: "length (series_sub xs ys) = min (length xs) (length ys)"
  by (simp add: series_sub_def)

lemma series_sub_nth:
  "i < length xs \<Longrightarrow> i < length ys \<Longrightarrow> series_sub xs ys ! i = xs ! i - ys ! i"
  by (simp add: series_sub_def)

section \<open>The result of \<open>calculate_macd_rsi\<close>\<close>

text \<open>
  On a reference of the store the call returns: no column read raises. The result is a
  new object, the copy of the input frame with the five indicator columns set.
\<close>

lemma calculate_macd_rsi_result:
  assumes "r < length h"
  shows "calculate_macd_rsi r h =
     Inr (length h,
          h @ [(h ! r)\<lparr>col_EMA12 := Some (ewm_mean 12 (col_price (h ! r))),
                       col_EMA26 := Some (ewm_mean 26 (col_price (h ! r))),
                       col_MACD := Some (series_sub (ewm_mean 12 (col_price (h ! r)))
                                                    (ewm_mean 26 (col_price (h ! r)))),
                       col_Signal := Some (ewm_mean 9 (series_sub (ewm_mean 12 (col_price (h ! r)))
                                                    (ewm_mean 26 (col_price (h ! r))))),
                       col_RSI := Some (rsi_series (col_price (h ! r)))\<rparr>])"
  using assms
  by (simp add: calculate_macd_rsi_def df_copy_def setitem_def getitem_def bind_err_def
        col_price_def Let_def nth_append)

section \<open>Claims about the exponential moving averages\<close>

text \<open>
  C1. For every non-empty price series, \<open>calculate_macd_rsi\<close> returns a frame whose
  EMA12 and EMA26 columns have the length of the price column, start with the first
  price, and at every later index \<open>i\<close> hold
  \<open>\<alpha> * price[i] + (1 - \<alpha>) * ema[i - 1]\<close> with \<open>\<alpha> = 2 / (12 + 1)\<close> and
  \<open>\<alpha> = 2 / (26 + 1)\<close>.
\<close>

theorem ema_columns_recurrence:
  assumes "r < length h" and "col_price (h ! r) \<noteq> []"
  shows "\<exists>r' h' fast slow.
           calculate_macd_rsi r h = Inr (r', h')
         \<and> col_EMA12 (h' ! r') = Some fast \<and> col_EMA26 (h' ! r') = Some slow
         \<and> length fast = length (col_price (h ! r))
         \<and> length slow = length (col_price (h ! r))
         \<and> fast ! 0 = col_price (h ! r) ! 0
         \<and> slow ! 0 = col_price (h ! r) ! 0
         \<and> (\<forall>i. 0 < i \<and> i < length (col_price (h ! r)) \<longrightarrow>
               fast ! i = (2 / (12 + 1)) * col_price (h ! r) ! i
                            + (1 - 2 / (12 + 1)) * fast ! (i - 1)
             \<and> slow ! i = (2 / (26 + 1)) * col_price (h ! r) ! i
                            + (1 - 2 / (26 + 1)) * slow ! (i - 1))"
proof -
  let ?p = "col_price (h ! r)"
  have step: "\<forall>i. 0 < i \<and> i < length ?p \<longrightarrow>
               ewm_mean 12 ?p ! i = (2 / (12 + 1)) * ?p ! i
                            + (1 - 2 / (12 + 1)) * ewm_mean 12 ?p ! (i - 1)
             \<and> ewm_mean 26 ?p ! i = (2 / (26 + 1)) * ?p ! i
                            + (1 - 2 / (26 + 1)) * ewm_mean 26 ?p ! (i - 1)"
  proof (intro allI impI conjI)
    fix i assume i: "0 < i \<and> i < length ?p"
    then have a: "0 < i" and b: "i < length ?p" by simp_all
    from ewm_mean_step[OF a b, of 12]
    show "ewm_mean 12 ?p ! i = (2 / (12 + 1)) * ?p ! i
                            + (1 - 2 / (12 + 1)) * ewm_mean 12 ?p ! (i - 1)"
      by simp
    from ewm_mean_step[OF a b, of 26]
    show "ewm_mean 26 ?p ! i = (2 / (26 + 1)) * ?p ! i
                            + (1 - 2 / (26 + 1)) * ewm_mean 26 ?p ! (i - 1)"
      by simp
  qed
  show ?thesis
    apply (rule exI[of _ "length h"])
    apply (subst calculate_macd_rsi_result[OF assms(1)])
    apply (simp only: sum.inject prod.inject simp_thms ex_simps)
    apply (simp add: length_ewm_mean ewm_mean_0[OF assms(2)])
    using step apply simp
    done
qed

theorem ema_columns_recurrence_witness:
  "(0::nat) < length [new_frame [(0, 10), (86400000, 23)]]
   \<and> col_price ([new_frame [(0, 10), (86400000, 23)]] ! 0) \<noteq> []
   \<and> (\<exists>r' h' fast slow.
           calculate_macd_rsi 0 [new_frame [(0, 10), (86400000, 23)]] = Inr (r', h')
         \<and> col_EMA12 (h' ! r') = Some fast \<and> col_EMA26 (h' ! r') = Some slow
         \<and> fast = [10, 12] \<and> slow ! 0 = 10)"
proof -
  let ?h = "[new_frame [(0, 10), (86400000, 23)]]"
  have a: "(0::nat) < length ?h" by simp
  have p: "col_price (?h ! 0) = [10, 23]" by (simp add: col_price_def new_frame_def)
  have b: "col_price (?h ! 0) \<noteq> []" unfolding p by simp
  from ema_columns_recurrence[OF a b] obtain r' h' fast slow where
    c: "calculate_macd_rsi 0 ?h = Inr (r', h')"
      "col_EMA12 (h' ! r') = Some fast" "col_EMA26 (h' ! r') = Some slow"
      and len: "length fast = length (col_price (?h ! 0))"
      and f0: "fast ! 0 = col_price (?h ! 0) ! 0"
      and s0: "slow ! 0 = col_price (?h ! 0) ! 0"
      and st: "\<forall>i. 0 < i \<and> i < length (col_price (?h ! 0)) \<longrightarrow>
               fast ! i = (2 / (12 + 1)) * col_price (?h ! 0) ! i
                            + (1 - 2 / (12 + 1)) * fast ! (i - 1)
             \<and> slow ! i = (2 / (26 + 1)) * col_price (?h ! 0) ! i
                            + (1 - 2 / (26 + 1)) * slow ! (i - 1)"
    by (elim exE conjE)
  from len have "length fast = 2" unfolding p by simp
  then obtain x y where f: "fast = [x, y]"
    by (cases fast; cases "tl fast") auto
  from st[rule_format, of 1] have "fast ! 1 = 2 / 13 * 23 + (1 - 2 / 13) * fast ! 0"
    unfolding p by simp
  with f0 f have "fast = [10, 12]" unfolding p by simp
  moreover from s0 have "slow ! 0 = 10" unfolding p by simp
  ultimately show ?thesis using a b c by blast
qed

section \<open>Facts about the RSI pipeline\<close>

lemma length_diff: "length (diff p) = length p"
  by (cases p) (simp_all add: diff_def)

lemma diff_nth:
  "i < length p \<Longrightarrow> diff p ! i = (if i = 0 then NaN else Fin (spec_delta p i))"
  by (cases p; cases i) (simp_all add: diff_def spec_delta_def)

lemma gain_series_eq: "gain_series (diff p) = map (\<lambda>i. Fin (gain_cell p i)) [0..<length p]"
proof (rule nth_equalityI)
  show "length (gain_series (diff p)) = length (map (\<lambda>i. Fin (gain_cell p i)) [0..<length p])"
    by (simp add: gain_series_def series_where_def length_diff)
next
  fix i assume "i < length (gain_series (diff p))"
  then have i: "i < length p"
    by (simp add: gain_series_def series_where_def length_diff)
  then show "gain_series (diff p) ! i = map (\<lambda>i. Fin (gain_cell p i)) [0..<length p] ! i"
    by (simp add: gain_series_def series_where_def length_diff diff_nth gain_cell_def
        spec_gain_def max_def)
qed

lemma loss_series_eq: "loss_series (diff p) = map (\<lambda>i. Fin (loss_cell p i)) [0..<length p]"
proof (rule nth_equalityI)
  show "length (loss_series (diff p)) = length (map (\<lambda>i. Fin (loss_cell p i)) [0..<length p])"
    by (simp add: loss_series_def series_where_def length_diff)
next
  fix i assume "i < length (loss_series (diff p))"
  then have i: "i < length p"
    by (simp add: loss_series_def series_where_def length_diff)
  then show "loss_series (diff p) ! i = map (\<lambda>i. Fin (loss_cell p i)) [0..<length p] ! i"
    by (simp add: loss_series_def series_where_def length_diff diff_nth loss_cell_def
        spec_loss_def max_def)
qed

lemma foldl_fadd_Fin: "foldl fadd (Fin a) (map Fin xs) = Fin (a + sum_list xs)"
  by (induction xs arbitrary: a) (simp_all add: add.assoc)

lemma filter_notna_Fin: "filter notna (map Fin xs) = map Fin xs"
  by (induction xs) simp_all

lemma window_mean_Fin:
  "window_mean w (map Fin xs) =
     (if w \<le> length xs \<and> xs \<noteq> [] then Fin (sum_list xs / real (length xs)) else NaN)"
  by (simp add: window_mean_def filter_notna_Fin foldl_fadd_Fin Let_def)

lemma length_rolling_mean: "length (rolling_mean w xs) = length xs"
  by (simp add: rolling_mean_def)

lemma rolling_mean_nth:
  "i < length xs \<Longrightarrow>
     rolling_mean w xs ! i = window_mean w (drop (Suc i - w) (take (Suc i) xs))"
  by (simp add: rolling_mean_def)

lemma window_cells:
  assumes "i < n"
  shows "drop (Suc i - w) (take (Suc i) (map f [0..<n])) = map f [Suc i - w..<Suc i]"
proof -
  from assms have "take (Suc i) (map f [0..<n]) = map f [0..<Suc i]"
    by (simp add: take_map min_def)
  then show ?thesis by (simp add: drop_map)
qed

lemma rolling_mean_cells:
  assumes "i < n" and "0 < w"
  shows "rolling_mean w (map (\<lambda>j. Fin (f j)) [0..<n]) ! i =
           (if w \<le> Suc i then Fin (sum_list (map f [Suc i - w..<Suc i]) / real w) else NaN)"
proof -
  have m: "map (\<lambda>j. Fin (f j)) [0..<n] = map Fin (map f [0..<n])" by simp
  have "rolling_mean w (map Fin (map f [0..<n])) ! i =
          window_mean w (drop (Suc i - w) (take (Suc i) (map Fin (map f [0..<n]))))"
    using assms by (intro rolling_mean_nth) simp
  also have "drop (Suc i - w) (take (Suc i) (map Fin (map f [0..<n]))) =
          map Fin (drop (Suc i - w) (take (Suc i) (map f [0..<n])))"
    by (simp only: take_map drop_map)
  also have "\<dots> = map Fin (map f [Suc i - w..<Suc i])"
    by (simp only: window_cells[OF assms(1)])
  also have "window_mean w \<dots> =
      (if w \<le> Suc i then Fin (sum_list (map f [Suc i - w..<Suc i]) / real w) else NaN)"
    unfolding window_mean_Fin using assms by auto
  finally show ?thesis unfolding m .
qed

lemma length_rsi_series: "length (rsi_series p) = length p"
  by (simp add: rsi_series_def Let_def length_rolling_mean gain_series_eq loss_series_eq)

lemma rsi_series_nth:
  assumes "i < length p"
  shows "rsi_series p ! i =
     (if 13 \<le> i
      then rsi_of (fdiv (Fin (sum_list (map (gain_cell p) [i - 13..<Suc i]) / 14))
                        (Fin (sum_list (map (loss_cell p) [i - 13..<Suc i]) / 14)))
      else NaN)"
proof -
  have g: "rolling_mean 14 (gain_series (diff p)) ! i =
      (if 14 \<le> Suc i then Fin (sum_list (map (gain_cell p) [Suc i - 14..<Suc i]) / real 14)
       else NaN)"
    unfolding gain_series_eq using assms by (intro rolling_mean_cells) simp_all
  have l: "rolling_mean 14 (loss_series (diff p)) ! i =
      (if 14 \<le> Suc i then Fin (sum_list (map (loss_cell p) [Suc i - 14..<Suc i]) / real 14)
       else NaN)"
    unfolding loss_series_eq using assms by (intro rolling_mean_cells) simp_all
  have "rsi_series p ! i =
      rsi_of (fdiv (rolling_mean 14 (gain_series (diff p)) ! i)
                   (rolling_mean 14 (loss_series (diff p)) ! i))"
    using assms
    by (simp add: rsi_series_def Let_def length_rolling_mean gain_series_eq loss_series_eq)
  then show ?thesis
    unfolding g l by (simp add: rsi_of_def fsub_def)
qed

lemma rsi_of_ratio:
  assumes "0 \<le> g" and "0 \<le> l"
  shows "rsi_of (fdiv (Fin g) (Fin l)) = spec_rsi g l"
proof (cases "l = 0")
  case True
  then show ?thesis using assms
    by (simp add: rsi_of_def fsub_def spec_rsi_def)
next
  case False
  with assms have "0 \<le> g / l" by simp
  then have "1 + g / l \<noteq> 0" by linarith
  with False show ?thesis
    by (simp add: rsi_of_def fsub_def spec_rsi_def)
qed

lemma sum_list_nonneg_cells:
  fixes f :: "nat \<Rightarrow> real"
  shows "(\<And>j. 0 \<le> f j) \<Longrightarrow> 0 \<le> sum_list (map f js)"
  by (induction js) (simp_all add: add_nonneg_nonneg)

lemma gain_cell_nonneg: "0 \<le> gain_cell p j"
  by (simp add: gain_cell_def spec_gain_def)

lemma loss_cell_nonneg: "0 \<le> loss_cell p j"
  by (simp add: loss_cell_def spec_loss_def)

lemma indicator_cell_RSI:
  "indicator_cell col_RSI rows i = iloc (rsi_series (map snd rows)) i"
  by (simp add: indicator_cell_def calculate_macd_rsi_result bind_err_def getitem_def
      new_frame_def col_price_def)

lemma gain_cells_spec:
  "14 \<le> i \<Longrightarrow> map (gain_cell p) [i - 13..<Suc i] = map (spec_gain p) [i - 13..<Suc i]"
  by (rule map_cong) (auto simp: gain_cell_def)

lemma loss_cells_spec:
  "14 \<le> i \<Longrightarrow> map (loss_cell p) [i - 13..<Suc i] = map (spec_loss p) [i - 13..<Suc i]"
  by (rule map_cong) (auto simp: loss_cell_def)

lemma spec_gain_nonneg: "0 \<le> spec_gain p j"
  by (simp add: spec_gain_def)

lemma spec_loss_nonneg: "0 \<le> spec_loss p j"
  by (simp add: spec_loss_def)

lemma spec_avg_nonneg: "(\<And>j. 0 \<le> f j) \<Longrightarrow> 0 \<le> spec_avg f i"
  by (simp add: spec_avg_def sum_list_nonneg_cells)

lemma sum_list_cells_zero_iff:
  fixes f :: "nat \<Rightarrow> real"
  assumes "\<And>j. 0 \<le> f j"
  shows "sum_list (map f js) = 0 \<longleftrightarrow> (\<forall>j \<in> set js. f j = 0)"
proof (induction js)
  case Nil
  then show ?case by simp
next
  case (Cons a js)
  have "0 \<le> f a" and "0 \<le> sum_list (map f js)"
    using assms by (simp_all add: sum_list_nonneg_cells)
  then have "f a + sum_list (map f js) = 0 \<longleftrightarrow> f a = 0 \<and> sum_list (map f js) = 0"
    by linarith
  with Cons.IH show ?case by simp
qed

lemma spec_avg_zero_iff:
  assumes "\<And>j. 0 \<le> f j"
  shows "spec_avg f i = 0 \<longleftrightarrow> (\<forall>j. i - 13 \<le> j \<and> j \<le> i \<longrightarrow> f j = 0)"
proof -
  have "spec_avg f i = 0 \<longleftrightarrow> sum_list (map f [i - 13..<Suc i]) = 0"
    by (simp add: spec_avg_def)
  also have "\<dots> \<longleftrightarrow> (\<forall>j \<in> set [i - 13..<Suc i]. f j = 0)"
    by (rule sum_list_cells_zero_iff) (rule assms)
  also have "\<dots> \<longleftrightarrow> (\<forall>j. i - 13 \<le> j \<and> j \<le> i \<longrightarrow> f j = 0)"
    by auto
  finally show ?thesis .
qed

lemma rsi_series_spec:
  assumes "14 \<le> i" and "i < length p"
  shows "rsi_series p ! i = spec_rsi (spec_avg (spec_gain p) i) (spec_avg (spec_loss p) i)"
proof -
  from assms have "13 \<le> i" by simp
  with rsi_series_nth[OF assms(2)]
  have "rsi_series p ! i =
      rsi_of (fdiv (Fin (spec_avg (spec_gain p) i)) (Fin (spec_avg (spec_loss p) i)))"
    by (simp only: gain_cells_spec[OF assms(1)] loss_cells_spec[OF assms(1)] spec_avg_def
        if_True)
  also have "\<dots> = spec_rsi (spec_avg (spec_gain p) i) (spec_avg (spec_loss p) i)"
    by (intro rsi_of_ratio spec_avg_nonneg spec_gain_nonneg spec_loss_nonneg)
  finally show ?thesis .
qed

lemma spec_rsi_NaN_iff: "0 \<le> g \<Longrightarrow> spec_rsi g l = NaN \<longleftrightarrow> g = 0 \<and> l = 0"
  by (auto simp: spec_rsi_def)

lemma flat_step_iff: "spec_gain p j = 0 \<and> spec_loss p j = 0 \<longleftrightarrow> p ! j = p ! (j - 1)"
  by (auto simp: spec_gain_def spec_loss_def spec_delta_def max_def)

lemma rsi_series_NaN_iff:
  assumes "14 \<le> i" and "i < length p"
  shows "rsi_series p ! i = NaN \<longleftrightarrow> (\<forall>j. i - 13 \<le> j \<and> j \<le> i \<longrightarrow> p ! j = p ! (j - 1))"
proof -
  have "rsi_series p ! i = NaN \<longleftrightarrow>
          spec_avg (spec_gain p) i = 0 \<and> spec_avg (spec_loss p) i = 0"
    unfolding rsi_series_spec[OF assms]
    by (intro spec_rsi_NaN_iff spec_avg_nonneg spec_gain_nonneg)
  also have "\<dots> \<longleftrightarrow> (\<forall>j. i - 13 \<le> j \<and> j \<le> i \<longrightarrow> spec_gain p j = 0 \<and> spec_loss p j = 0)"
    unfolding spec_avg_zero_iff[of "spec_gain p", OF spec_gain_nonneg]
      spec_avg_zero_iff[of "spec_loss p", OF spec_loss_nonneg]
    by blast
  finally show ?thesis unfolding flat_step_iff .
qed

lemma spec_rsi_bounds:
  assumes "0 \<le> g" and "0 \<le> l"
  shows "spec_rsi g l = NaN \<or> (\<exists>v. spec_rsi g l = Fin v \<and> 0 \<le> v \<and> v \<le> 100)"
proof (cases "l = 0")
  case True
  then show ?thesis by (simp add: spec_rsi_def)
next
  case False
  with assms have "0 \<le> g / l" by simp
  then have one: "1 \<le> 1 + g / l" by simp
  then have "100 / (1 + g / l) \<le> 100 / 1"
    by (intro divide_left_mono) simp_all
  moreover from one have "0 \<le> 100 / (1 + g / l)" by simp
  ultimately show ?thesis using False by (simp add: spec_rsi_def)
qed

lemma rsi_series_bounds:
  assumes "i < length p"
  shows "rsi_series p ! i = NaN \<or> (\<exists>v. rsi_series p ! i = Fin v \<and> 0 \<le> v \<and> v \<le> 100)"
proof (cases "13 \<le> i")
  case False
  with rsi_series_nth[OF assms] show ?thesis by simp
next
  case True
  let ?g = "sum_list (map (gain_cell p) [i - 13..<Suc i]) / 14"
  let ?l = "sum_list (map (loss_cell p) [i - 13..<Suc i]) / 14"
  have g: "0 \<le> ?g" by (simp add: sum_list_nonneg_cells gain_cell_nonneg)
  have l: "0 \<le> ?l" by (simp add: sum_list_nonneg_cells loss_cell_nonneg)
  from True rsi_series_nth[OF assms]
  have "rsi_series p ! i = rsi_of (fdiv (Fin ?g) (Fin ?l))"
    by (simp only: if_True)
  then have "rsi_series p ! i = spec_rsi ?g ?l"
    by (simp only: rsi_of_ratio[OF g l])
  with spec_rsi_bounds[OF g l] show ?thesis by (simp only:)
qed

section \<open>Claims about the relative strength index\<close>

text \<open>
  C2, refuted as stated. Fourteen samples \<open>1, 2, 2, \<dots>, 2\<close>: the RSI cell at index 13
  holds 100, it is not missing (the \<open>where\<close> of the source puts 0 in place of the missing
  first delta, so the window of index 13 already counts 14 cells). Fifteen equal
  samples: the RSI cell at index 14 is missing (both averages are 0).
\<close>

theorem rsi_warmup_counterexample:
  "indicator_cell col_RSI
       [(0, 1), (1, 2), (2, 2), (3, 2), (4, 2), (5, 2), (6, 2), (7, 2), (8, 2), (9, 2),
        (10, 2), (11, 2), (12, 2), (13, 2)] 13 = Inr (Fin 100)
   \<and> indicator_cell col_RSI
       [(0, 5), (1, 5), (2, 5), (3, 5), (4, 5), (5, 5), (6, 5), (7, 5), (8, 5), (9, 5),
        (10, 5), (11, 5), (12, 5), (13, 5), (14, 5)] 14 = Inr NaN"
  by (simp add: indicator_cell_RSI iloc_def length_rsi_series rsi_series_nth
      gain_cell_def loss_cell_def spec_gain_def spec_loss_def spec_delta_def
      rsi_of_def fsub_def upt_rec)

text \<open>
  C2, amended. The RSI column has one cell per sample. The cells at indices 0 to 12 are
  missing. At every index \<open>i \<ge> 14\<close> of the series the cell is the specification's RSI of
  the simple means of the 14 gains and the 14 losses of the deltas \<open>i - 13 .. i\<close>; it is
  missing exactly when these 14 deltas are all zero.
\<close>

theorem rsi_column_warmup:
  assumes "r < length h"
  shows "\<exists>r' h' rsi.
           calculate_macd_rsi r h = Inr (r', h')
         \<and> col_RSI (h' ! r') = Some rsi
         \<and> length rsi = length (col_price (h ! r))
         \<and> (\<forall>i. i < 13 \<and> i < length (col_price (h ! r)) \<longrightarrow> rsi ! i = NaN)
         \<and> (\<forall>i. 14 \<le> i \<and> i < length (col_price (h ! r)) \<longrightarrow>
               rsi ! i = spec_rsi (spec_avg (spec_gain (col_price (h ! r))) i)
                                  (spec_avg (spec_loss (col_price (h ! r))) i)
             \<and> (rsi ! i = NaN \<longleftrightarrow>
                  (\<forall>j. i - 13 \<le> j \<and> j \<le> i \<longrightarrow>
                     col_price (h ! r) ! j = col_price (h ! r) ! (j - 1))))"
proof -
  let ?p = "col_price (h ! r)"
  have early: "\<forall>i. i < 13 \<and> i < length ?p \<longrightarrow> rsi_series ?p ! i = NaN"
    by (simp add: rsi_series_nth)
  have late: "\<forall>i. 14 \<le> i \<and> i < length ?p \<longrightarrow>
               rsi_series ?p ! i = spec_rsi (spec_avg (spec_gain ?p) i) (spec_avg (spec_loss ?p) i)
             \<and> (rsi_series ?p ! i = NaN \<longleftrightarrow>
                  (\<forall>j. i - 13 \<le> j \<and> j \<le> i \<longrightarrow> ?p ! j = ?p ! (j - 1)))"
    using rsi_series_spec rsi_series_NaN_iff by blast
  have "col_RSI ((h @ [(h ! r)\<lparr>col_EMA12 := Some (ewm_mean 12 ?p),
                       col_EMA26 := Some (ewm_mean 26 ?p),
                       col_MACD := Some (series_sub (ewm_mean 12 ?p) (ewm_mean 26 ?p)),
                       col_Signal := Some (ewm_mean 9 (series_sub (ewm_mean 12 ?p)
                                                    (ewm_mean 26 ?p))),
                       col_RSI := Some (rsi_series ?p)\<rparr>]) ! length h) = Some (rsi_series ?p)"
    by simp
  with calculate_macd_rsi_result[OF assms] early late length_rsi_series[of ?p]
  show ?thesis by blast
qed

theorem rsi_column_warmup_witness:
  "(0::nat) < length [new_frame
       [(0, 1), (1, 2), (2, 1), (3, 2), (4, 1), (5, 2), (6, 1), (7, 2), (8, 1), (9, 2),
        (10, 1), (11, 2), (12, 1), (13, 2), (14, 1)]]
   \<and> (\<exists>r' h' rsi.
         calculate_macd_rsi 0 [new_frame
           [(0, 1), (1, 2), (2, 1), (3, 2), (4, 1), (5, 2), (6, 1), (7, 2), (8, 1), (9, 2),
            (10, 1), (11, 2), (12, 1), (13, 2), (14, 1)]] = Inr (r', h')
       \<and> col_RSI (h' ! r') = Some rsi
       \<and> length rsi = 15 \<and> rsi ! 0 = NaN \<and> rsi ! 14 = Fin 50)"
proof -
  let ?h = "[new_frame
       [(0, 1), (1, 2), (2, 1), (3, 2), (4, 1), (5, 2), (6, 1), (7, 2), (8, 1), (9, 2),
        (10, 1), (11, 2), (12, 1), (13, 2), (14, 1)]]"
  have a: "(0::nat) < length ?h" by simp
  have p: "col_price (?h ! 0) = [1, 2, 1, 2, 1, 2, 1, 2, 1, 2, 1, 2, 1, 2, 1]"
    by (simp add: col_price_def new_frame_def)
  from rsi_column_warmup[OF a] obtain r' h' rsi where
    c: "calculate_macd_rsi 0 ?h = Inr (r', h')" "col_RSI (h' ! r') = Some rsi"
    and len: "length rsi = length (col_price (?h ! 0))"
    and early: "\<forall>i. i < 13 \<and> i < length (col_price (?h ! 0)) \<longrightarrow> rsi ! i = NaN"
    and late: "\<forall>i. 14 \<le> i \<and> i < length (col_price (?h ! 0)) \<longrightarrow>
               rsi ! i = spec_rsi (spec_avg (spec_gain (col_price (?h ! 0))) i)
                                  (spec_avg (spec_loss (col_price (?h ! 0))) i)
             \<and> (rsi ! i = NaN \<longleftrightarrow>
                  (\<forall>j. i - 13 \<le> j \<and> j \<le> i \<longrightarrow>
                     col_price (?h ! 0) ! j = col_price (?h ! 0) ! (j - 1)))"
    by (elim exE conjE)
  from len have "length rsi = 15" unfolding p by simp
  moreover from early[rule_format, of 0] have "rsi ! 0 = NaN" unfolding p by simp
  moreover from late[rule_format, of 14] have "rsi ! 14 = Fin 50"
    unfolding p
    by (simp add: spec_rsi_def spec_avg_def spec_gain_def spec_loss_def spec_delta_def upt_rec)
  ultimately show ?thesis using a c by blast
qed

text \<open>
  C4. Every cell of the RSI column is missing or a finite value between 0 and 100
  inclusive.
\<close>

theorem rsi_column_bounded:
  assumes "r < length h"
  shows "\<exists>r' h' rsi.
           calculate_macd_rsi r h = Inr (r', h')
         \<and> col_RSI (h' ! r') = Some rsi
         \<and> (\<forall>i. i < length rsi \<longrightarrow>
               rsi ! i = NaN \<or> (\<exists>v. rsi ! i = Fin v \<and> 0 \<le> v \<and> v \<le> 100))"
proof -
  let ?p = "col_price (h ! r)"
  have b: "\<forall>i. i < length (rsi_series ?p) \<longrightarrow>
             rsi_series ?p ! i = NaN \<or> (\<exists>v. rsi_series ?p ! i = Fin v \<and> 0 \<le> v \<and> v \<le> 100)"
    using rsi_series_bounds by (simp add: length_rsi_series)
  have "col_RSI ((h @ [(h ! r)\<lparr>col_EMA12 := Some (ewm_mean 12 ?p),
                       col_EMA26 := Some (ewm_mean 26 ?p),
                       col_MACD := Some (series_sub (ewm_mean 12 ?p) (ewm_mean 26 ?p)),
                       col_Signal := Some (ewm_mean 9 (series_sub (ewm_mean 12 ?p)
                                                    (ewm_mean 26 ?p))),
                       col_RSI := Some (rsi_series ?p)\<rparr>]) ! length h) = Some (rsi_series ?p)"
    by simp
  with calculate_macd_rsi_result[OF assms] b show ?thesis by blast
qed

theorem rsi_column_bounded_witness:
  "(0::nat) < length [new_frame
       [(0, 4), (1, 2), (2, 1), (3, 2), (4, 1), (5, 2), (6, 1), (7, 2), (8, 1), (9, 2),
        (10, 1), (11, 2), (12, 1), (13, 2), (14, 1)]]
   \<and> (\<exists>r' h' rsi v.
         calculate_macd_rsi 0 [new_frame
           [(0, 4), (1, 2), (2, 1), (3, 2), (4, 1), (5, 2), (6, 1), (7, 2), (8, 1), (9, 2),
            (10, 1), (11, 2), (12, 1), (13, 2), (14, 1)]] = Inr (r', h')
       \<and> col_RSI (h' ! r') = Some rsi
       \<and> rsi ! 13 = Fin v \<and> 0 \<le> v \<and> v \<le> 100)"
proof -
  let ?rows = "[(0, 4), (1, 2), (2, 1), (3, 2), (4, 1), (5, 2), (6, 1), (7, 2), (8, 1), (9, 2),
        (10, 1), (11, 2), (12, 1), (13, 2), (14::int, 1::real)]"
  let ?h = "[new_frame ?rows]"
  have a: "(0::nat) < length ?h" by simp
  from rsi_column_bounded[OF a] obtain r' h' rsi where
    c: "calculate_macd_rsi 0 ?h = Inr (r', h')" "col_RSI (h' ! r') = Some rsi"
    and b: "\<forall>i. i < length rsi \<longrightarrow>
               rsi ! i = NaN \<or> (\<exists>v. rsi ! i = Fin v \<and> 0 \<le> v \<and> v \<le> 100)"
    by (elim exE conjE)
  from c calculate_macd_rsi_result[OF a] have rsi: "rsi = rsi_series (map snd ?rows)"
    by (simp add: col_price_def new_frame_def)
  have n: "rsi ! 13 \<noteq> NaN"
    unfolding rsi
    by (simp add: rsi_series_nth gain_cell_def loss_cell_def spec_gain_def spec_loss_def
        spec_delta_def rsi_of_def fsub_def upt_rec)
  have "13 < length rsi" unfolding rsi by (simp add: length_rsi_series)
  with b n obtain v where "rsi ! 13 = Fin v" "0 \<le> v" "v \<le> 100" by blast
  with a c show ?thesis by blast
qed

text \<open>
  C5. On a strictly increasing price series, at every index \<open>i \<ge> 14\<close> the 14-cell
  rolling mean of the losses is 0 and the RSI cell is exactly 100.
\<close>

theorem rsi_increasing_is_100:
  assumes "r < length h" and "sorted_wrt (<) (col_price (h ! r))"
  shows "\<exists>r' h' rsi.
           calculate_macd_rsi r h = Inr (r', h')
         \<and> col_RSI (h' ! r') = Some rsi
         \<and> (\<forall>i. 14 \<le> i \<and> i < length (col_price (h ! r)) \<longrightarrow>
               rolling_mean 14 (loss_series (diff (col_price (h ! r)))) ! i = Fin 0
             \<and> rsi ! i = Fin 100)"
proof -
  let ?p = "col_price (h ! r)"
  have main: "rolling_mean 14 (loss_series (diff ?p)) ! i = Fin 0 \<and> rsi_series ?p ! i = Fin 100"
    if i: "14 \<le> i" "i < length ?p" for i
  proof -
    have up: "?p ! (j - 1) < ?p ! j" if "j \<in> set [i - 13..<Suc i]" for j
    proof -
      from that i have "j - 1 < j" "j < length ?p" by auto
      with assms(2) show ?thesis by (simp add: sorted_wrt_iff_nth_less)
    qed
    have cell: "spec_loss ?p j = 0" if "j \<in> set [i - 13..<Suc i]" for j
      using up[OF that] by (simp add: spec_loss_def spec_delta_def)
    have l0: "map (spec_loss ?p) [i - 13..<Suc i] = map (\<lambda>j. 0) [i - 13..<Suc i]"
      by (rule map_cong[OF refl]) (rule cell)
    have avg_loss: "spec_avg (spec_loss ?p) i = 0"
      unfolding spec_avg_def l0 by simp
    have "spec_gain ?p i \<noteq> 0"
      using up[of i] by (simp add: spec_gain_def spec_delta_def max_def)
    moreover have "i - 13 \<le> i \<and> i \<le> i" by simp
    ultimately have "\<not> (\<forall>j. i - 13 \<le> j \<and> j \<le> i \<longrightarrow> spec_gain ?p j = 0)" by blast
    then have "spec_avg (spec_gain ?p) i \<noteq> 0"
      by (simp add: spec_avg_zero_iff[of "spec_gain ?p", OF spec_gain_nonneg])
    with spec_avg_nonneg[of "spec_gain ?p" i, OF spec_gain_nonneg]
    have avg_gain: "0 < spec_avg (spec_gain ?p) i" by simp
    have e: "Suc i - 14 = i - 13" by simp
    have "rolling_mean 14 (loss_series (diff ?p)) ! i =
        Fin (sum_list (map (loss_cell ?p) [Suc i - 14..<Suc i]) / real 14)"
      unfolding loss_series_eq using i by (subst rolling_mean_cells) simp_all
    also have "\<dots> = Fin (spec_avg (spec_loss ?p) i)"
      unfolding e loss_cells_spec[OF i(1)] spec_avg_def by simp
    finally have "rolling_mean 14 (loss_series (diff ?p)) ! i = Fin 0"
      by (simp only: avg_loss)
    moreover have "rsi_series ?p ! i = Fin 100"
      unfolding rsi_series_spec[OF i] avg_loss using avg_gain by (simp add: spec_rsi_def)
    ultimately show ?thesis by simp
  qed
  have "col_RSI ((h @ [(h ! r)\<lparr>col_EMA12 := Some (ewm_mean 12 ?p),
                       col_EMA26 := Some (ewm_mean 26 ?p),
                       col_MACD := Some (series_sub (ewm_mean 12 ?p) (ewm_mean 26 ?p)),
                       col_Signal := Some (ewm_mean 9 (series_sub (ewm_mean 12 ?p)
                                                    (ewm_mean 26 ?p))),
                       col_RSI := Some (rsi_series ?p)\<rparr>]) ! length h) = Some (rsi_series ?p)"
    by simp
  with calculate_macd_rsi_result[OF assms(1)] main show ?thesis by blast
qed

theorem rsi_increasing_is_100_witness:
  "(0::nat) < length [new_frame
       [(0, 1), (1, 2), (2, 3), (3, 4), (4, 5), (5, 6), (6, 7), (7, 8), (8, 9), (9, 10),
        (10, 11), (11, 12), (12, 13), (13, 14), (14, 15)]]
   \<and> sorted_wrt (<) (col_price ([new_frame
       [(0, 1), (1, 2), (2, 3), (3, 4), (4, 5), (5, 6), (6, 7), (7, 8), (8, 9), (9, 10),
        (10, 11), (11, 12), (12, 13), (13, 14), (14, 15)]] ! 0))
   \<and> (\<exists>r' h' rsi.
         calculate_macd_rsi 0 [new_frame
           [(0, 1), (1, 2), (2, 3), (3, 4), (4, 5), (5, 6), (6, 7), (7, 8), (8, 9), (9, 10),
            (10, 11), (11, 12), (12, 13), (13, 14), (14, 15)]] = Inr (r', h')
       \<and> col_RSI (h' ! r') = Some rsi \<and> rsi ! 14 = Fin 100)"
proof -
  let ?h = "[new_frame
       [(0, 1), (1, 2), (2, 3), (3, 4), (4, 5), (5, 6), (6, 7), (7, 8), (8, 9), (9, 10),
        (10, 11), (11, 12), (12, 13), (13, 14), (14, 15)]]"
  have a: "(0::nat) < length ?h" by simp
  have p: "col_price (?h ! 0) = [1, 2, 3, 4, 5, 6, 7, 8, 9, 10, 11, 12, 13, 14, 15]"
    by (simp add: col_price_def new_frame_def)
  have s: "sorted_wrt (<) (col_price (?h ! 0))" unfolding p by simp
  from rsi_increasing_is_100[OF a s] obtain r' h' rsi where
    c: "calculate_macd_rsi 0 ?h = Inr (r', h')" "col_RSI (h' ! r') = Some rsi"
    and b: "\<forall>i. 14 \<le> i \<and> i < length (col_price (?h ! 0)) \<longrightarrow>
               rolling_mean 14 (loss_series (diff (col_price (?h ! 0)))) ! i = Fin 0
             \<and> rsi ! i = Fin 100"
    by (elim exE conjE)
  from b[rule_format, of 14] have "rsi ! 14 = Fin 100" unfolding p by simp
  with a s c show ?thesis by blast
qed

section \<open>Claims about MACD, the signal line and the frame\<close>

text \<open>
  C3. For every non-empty price series the EMA12 and EMA26 columns are the 12- and
  26-period EMAs of the price column (seeded with the first price), the MACD column is
  their pointwise difference, the Signal column is the 9-period EMA of the MACD
  column, seeded with its first cell, and both MACD and Signal have a cell at every
  index of the series.
\<close>

theorem macd_signal_columns:
  assumes "r < length h" and "col_price (h ! r) \<noteq> []"
  shows "\<exists>r' h' fast slow macd signal.
           calculate_macd_rsi r h = Inr (r', h')
         \<and> col_EMA12 (h' ! r') = Some fast \<and> col_EMA26 (h' ! r') = Some slow
         \<and> col_MACD (h' ! r') = Some macd \<and> col_Signal (h' ! r') = Some signal
         \<and> length fast = length (col_price (h ! r))
         \<and> length slow = length (col_price (h ! r))
         \<and> fast ! 0 = col_price (h ! r) ! 0
         \<and> slow ! 0 = col_price (h ! r) ! 0
         \<and> (\<forall>i. 0 < i \<and> i < length (col_price (h ! r)) \<longrightarrow>
               fast ! i = (2 / (12 + 1)) * col_price (h ! r) ! i
                            + (1 - 2 / (12 + 1)) * fast ! (i - 1)
             \<and> slow ! i = (2 / (26 + 1)) * col_price (h ! r) ! i
                            + (1 - 2 / (26 + 1)) * slow ! (i - 1))
         \<and> length macd = length (col_price (h ! r))
         \<and> length signal = length (col_price (h ! r))
         \<and> (\<forall>i. i < length (col_price (h ! r)) \<longrightarrow> macd ! i = fast ! i - slow ! i)
         \<and> signal = ewm_mean 9 macd
         \<and> signal ! 0 = macd ! 0
         \<and> (\<forall>i. 0 < i \<and> i < length (col_price (h ! r)) \<longrightarrow>
               signal ! i = (2 / (9 + 1)) * macd ! i + (1 - 2 / (9 + 1)) * signal ! (i - 1))"
proof -
  let ?p = "col_price (h ! r)"
  let ?m = "series_sub (ewm_mean 12 ?p) (ewm_mean 26 ?p)"
  have len: "length ?m = length ?p"
    by (simp add: length_series_sub length_ewm_mean)
  have pt: "\<forall>i. i < length ?p \<longrightarrow> ?m ! i = ewm_mean 12 ?p ! i - ewm_mean 26 ?p ! i"
    by (simp add: series_sub_nth length_ewm_mean)
  from assms(2) len have ne: "?m \<noteq> []" by auto
  have ema: "\<forall>i. 0 < i \<and> i < length ?p \<longrightarrow>
               ewm_mean 12 ?p ! i = (2 / (12 + 1)) * ?p ! i
                            + (1 - 2 / (12 + 1)) * ewm_mean 12 ?p ! (i - 1)
             \<and> ewm_mean 26 ?p ! i = (2 / (26 + 1)) * ?p ! i
                            + (1 - 2 / (26 + 1)) * ewm_mean 26 ?p ! (i - 1)"
  proof (intro allI impI conjI)
    fix i assume i: "0 < i \<and> i < length ?p"
    then have a: "0 < i" and b: "i < length ?p" by simp_all
    from ewm_mean_step[OF a b, of 12]
    show "ewm_mean 12 ?p ! i = (2 / (12 + 1)) * ?p ! i
                            + (1 - 2 / (12 + 1)) * ewm_mean 12 ?p ! (i - 1)"
      by simp
    from ewm_mean_step[OF a b, of 26]
    show "ewm_mean 26 ?p ! i = (2 / (26 + 1)) * ?p ! i
                            + (1 - 2 / (26 + 1)) * ewm_mean 26 ?p ! (i - 1)"
      by simp
  qed
  have step: "\<forall>i. 0 < i \<and> i < length ?p \<longrightarrow>
      ewm_mean 9 ?m ! i = (2 / (9 + 1)) * ?m ! i + (1 - 2 / (9 + 1)) * ewm_mean 9 ?m ! (i - 1)"
  proof (intro allI impI)
    fix i assume "0 < i \<and> i < length ?p"
    then have a: "0 < i" and b: "i < length ?m" by (simp_all add: len)
    from ewm_mean_step[OF a b, of 9] show
      "ewm_mean 9 ?m ! i = (2 / (9 + 1)) * ?m ! i + (1 - 2 / (9 + 1)) * ewm_mean 9 ?m ! (i - 1)"
      by simp
  qed
  show ?thesis
    apply (rule exI[of _ "length h"])
    apply (subst calculate_macd_rsi_result[OF assms(1)])
    apply (simp only: sum.inject prod.inject simp_thms ex_simps)
    apply (simp add: length_ewm_mean len ewm_mean_0[OF ne] ewm_mean_0[OF assms(2)])
    using pt step ema apply simp
    done
qed

theorem macd_signal_columns_witness:
  "(0::nat) < length [new_frame [(0, 10), (86400000, 23)]]
   \<and> col_price ([new_frame [(0, 10), (86400000, 23)]] ! 0) \<noteq> []
   \<and> (\<exists>r' h' macd signal.
           calculate_macd_rsi 0 [new_frame [(0, 10), (86400000, 23)]] = Inr (r', h')
         \<and> col_MACD (h' ! r') = Some macd \<and> col_Signal (h' ! r') = Some signal
         \<and> macd = [0, 28 / 27] \<and> signal = [0, 28 / 135])"
proof -
  let ?h = "[new_frame [(0, 10), (86400000, 23)]]"
  have a: "(0::nat) < length ?h" by simp
  have p: "col_price (?h ! 0) = [10, 23]" by (simp add: col_price_def new_frame_def)
  have b: "col_price (?h ! 0) \<noteq> []" unfolding p by simp
  from macd_signal_columns[OF a b] obtain r' h' fast slow macd signal where
    c: "calculate_macd_rsi 0 ?h = Inr (r', h')"
      "col_MACD (h' ! r') = Some macd" "col_Signal (h' ! r') = Some signal"
    and f0: "fast ! 0 = col_price (?h ! 0) ! 0"
    and s0: "slow ! 0 = col_price (?h ! 0) ! 0"
    and ema: "\<forall>i. 0 < i \<and> i < length (col_price (?h ! 0)) \<longrightarrow>
               fast ! i = (2 / (12 + 1)) * col_price (?h ! 0) ! i
                            + (1 - 2 / (12 + 1)) * fast ! (i - 1)
             \<and> slow ! i = (2 / (26 + 1)) * col_price (?h ! 0) ! i
                            + (1 - 2 / (26 + 1)) * slow ! (i - 1)"
    and len: "length macd = length (col_price (?h ! 0))"
      "length signal = length (col_price (?h ! 0))"
    and pt: "\<forall>i. i < length (col_price (?h ! 0)) \<longrightarrow> macd ! i = fast ! i - slow ! i"
    and g0: "signal ! 0 = macd ! 0"
    and st: "\<forall>i. 0 < i \<and> i < length (col_price (?h ! 0)) \<longrightarrow>
               signal ! i = (2 / (9 + 1)) * macd ! i + (1 - 2 / (9 + 1)) * signal ! (i - 1)"
    by (elim exE conjE)
  from ema[rule_format, of 1] f0 s0 have f1: "fast ! 1 = 12" and s1: "slow ! 1 = 296 / 27"
    unfolding p by simp_all
  from pt[rule_format, of 0] f0 s0 have m0: "macd ! 0 = 0" unfolding p by simp
  from pt[rule_format, of 1] f1 s1 have m1: "macd ! 1 = 28 / 27" unfolding p by simp
  from st[rule_format, of 1] g0 m0 m1 have g1: "signal ! 1 = 28 / 135" unfolding p by simp
  from len have "length macd = 2" "length signal = 2" unfolding p by simp_all
  then obtain x y u v where xy: "macd = [x, y]" and uv: "signal = [u, v]"
    by (cases macd; cases "tl macd"; cases signal; cases "tl signal") auto
  from xy m0 m1 have "macd = [0, 28 / 27]" by simp
  moreover from uv g0 g1 m0 have "signal = [0, 28 / 135]" by simp
  ultimately show ?thesis using a b c by blast
qed

text \<open>
  C8. On a frame with no row \<open>calculate_macd_rsi\<close> returns (it raises nothing) a frame
  with no row: the base columns and each of the five indicator columns are empty.
\<close>

theorem empty_series_empty_output:
  assumes "r < length h" and "base (h ! r) = []"
  shows "\<exists>r' h'.
           calculate_macd_rsi r h = Inr (r', h')
         \<and> base (h' ! r') = []
         \<and> col_EMA12 (h' ! r') = Some [] \<and> col_EMA26 (h' ! r') = Some []
         \<and> col_MACD (h' ! r') = Some [] \<and> col_Signal (h' ! r') = Some []
         \<and> col_RSI (h' ! r') = Some []"
proof -
  from assms(2) have p: "col_price (h ! r) = []" by (simp add: col_price_def)
  have e: "ewm_mean s [] = []" for s by (simp add: ewm_mean_def)
  have m: "series_sub [] [] = []" by (simp add: series_sub_def)
  have rs: "rsi_series [] = []" using length_rsi_series[of "[]"] by simp
  show ?thesis
    apply (rule exI[of _ "length h"])
    apply (subst calculate_macd_rsi_result[OF assms(1)])
    apply (simp add: p e m rs assms(2))
    done
qed

theorem empty_series_empty_output_witness:
  "(0::nat) < length [new_frame []] \<and> base ([new_frame []] ! 0) = []
   \<and> (\<exists>r' h'. calculate_macd_rsi 0 [new_frame []] = Inr (r', h')
         \<and> base (h' ! r') = [] \<and> col_EMA12 (h' ! r') = Some []
         \<and> col_EMA26 (h' ! r') = Some [] \<and> col_MACD (h' ! r') = Some []
         \<and> col_Signal (h' ! r') = Some [] \<and> col_RSI (h' ! r') = Some [])"
proof -
  have a: "(0::nat) < length [new_frame []]" by simp
  have b: "base ([new_frame []] ! 0) = []" by (simp add: new_frame_def)
  from empty_series_empty_output[OF a b] a b show ?thesis by (intro conjI)
qed

text \<open>
  C9. \<open>calculate_macd_rsi\<close> works on a copy: every object of the store before the call,
  the caller's frame among them, is unchanged after it; the result is a new object
  with the caller's timestamp and price columns, the same number of rows, and the five
  indicator columns, one cell per row each.
\<close>

theorem input_frame_unchanged:
  assumes "r < length h"
  shows "\<exists>r' h' fast slow macd signal rsi.
           calculate_macd_rsi r h = Inr (r', h')
         \<and> r' \<noteq> r \<and> length h \<le> r'
         \<and> (\<forall>k. k < length h \<longrightarrow> h' ! k = h ! k)
         \<and> h' ! r = h ! r
         \<and> col_timestamp (h' ! r') = col_timestamp (h ! r)
         \<and> col_price (h' ! r') = col_price (h ! r)
         \<and> length (base (h' ! r')) = length (base (h ! r))
         \<and> col_EMA12 (h' ! r') = Some fast \<and> length fast = length (base (h ! r))
         \<and> col_EMA26 (h' ! r') = Some slow \<and> length slow = length (base (h ! r))
         \<and> col_MACD (h' ! r') = Some macd \<and> length macd = length (base (h ! r))
         \<and> col_Signal (h' ! r') = Some signal \<and> length signal = length (base (h ! r))
         \<and> col_RSI (h' ! r') = Some rsi \<and> length rsi = length (base (h ! r))"
proof -
  show ?thesis
    apply (rule exI[of _ "length h"])
    apply (subst calculate_macd_rsi_result[OF assms])
    apply (simp only: sum.inject prod.inject simp_thms ex_simps)
    using assms
    apply (simp add: nth_append col_timestamp_def col_price_def)
    apply (simp add: length_ewm_mean length_series_sub length_rsi_series)
    done
qed

theorem input_frame_unchanged_witness:
  "(0::nat) < length [new_frame [(0, 10), (86400000, 23)]]
   \<and> (\<exists>r' h'. calculate_macd_rsi 0 [new_frame [(0, 10), (86400000, 23)]] = Inr (r', h')
         \<and> r' \<noteq> 0
         \<and> h' ! 0 = new_frame [(0, 10), (86400000, 23)]
         \<and> col_timestamp (h' ! r') = [0, 86400000]
         \<and> col_price (h' ! r') = [10, 23])"
proof -
  let ?h = "[new_frame [(0, 10), (86400000, 23)]]"
  have a: "(0::nat) < length ?h" by simp
  from input_frame_unchanged[OF a] obtain r' h' where
    c: "calculate_macd_rsi 0 ?h = Inr (r', h')" "r' \<noteq> 0" "h' ! 0 = ?h ! 0"
      "col_timestamp (h' ! r') = col_timestamp (?h ! 0)"
      "col_price (h' ! r') = col_price (?h ! 0)"
    by (elim exE conjE)
  from c(3) have "h' ! 0 = new_frame [(0, 10), (86400000, 23)]" by simp
  moreover from c(4) have "col_timestamp (h' ! r') = [0, 86400000]"
    by (simp add: col_timestamp_def new_frame_def)
  moreover from c(5) have "col_price (h' ! r') = [10, 23]"
    by (simp add: col_price_def new_frame_def)
  ultimately show ?thesis using a c(1,2) by blast
qed

section \<open>Claims about the fetcher\<close>

lemma pd_DataFrame_empty: "pd_DataFrame pd_other (JArr []) = Inr (new_frame [])"
  by (simp add: pd_DataFrame_def)

text \<open>
  C6, refuted as stated. The provider answers 200 with the body \<open>{"prices": []}\<close>:
  \<open>get_price_history\<close> returns a frame (with no row), not \<open>None\<close>, the only failure
  value it has.
\<close>

theorem empty_prices_counterexample:
  "get_price_history pd_raises
     (always (Returns \<lparr>status_code = 200, body = Some (JObj [(''prices'', JArr [])])\<rparr>))
     ''bitcoin'' 7 ''usd'' [] = (Some 0, [new_frame []])"
  by (simp add: get_price_history_def requests_get_def res_json_def bind_err_def always_def
      pd_DataFrame_def)

text \<open>
  C6, amended. When the response is well formed and its \<open>prices\<close> list is empty,
  \<open>get_price_history\<close> returns an explicit frame with no row, never \<open>None\<close>; the query
  of the dashboard treats this frame as a failed query: it shows the failure message,
  computes nothing and records nothing.
\<close>

theorem empty_prices_explicit_empty_frame:
  assumes "net coin_id days ''usd'' = Returns res" and "body res = Some data"
    and "py_subscript data ''prices'' = Inr (JArr [])"
  shows "get_price_history pd_other net coin_id days ''usd'' h
           = (Some (length h), h @ [new_frame []])
       \<and> run_query f64_mean pd_other net now coin_id coin_name days h hfile
           = Inr (QueryFailed, h @ [new_frame []], hfile)"
proof -
  have g: "get_price_history pd_other net coin_id days ''usd'' h
           = (Some (length h), h @ [new_frame []])"
    using assms
    by (simp add: get_price_history_def requests_get_def res_json_def bind_err_def
        pd_DataFrame_empty)
  have "base ((h @ [new_frame []]) ! length h) = []" by (simp add: new_frame_def)
  with g show ?thesis by (simp add: run_query_def)
qed

theorem empty_prices_explicit_empty_frame_witness:
  "always (Returns \<lparr>status_code = 200, body = Some (JObj [(''prices'', JArr [])])\<rparr>)
       ''bitcoin'' 7 ''usd''
     = Returns \<lparr>status_code = 200, body = Some (JObj [(''prices'', JArr [])])\<rparr>
   \<and> py_subscript (JObj [(''prices'', JArr [])]) ''prices'' = Inr (JArr [])
   \<and> get_price_history pd_raises
        (always (Returns \<lparr>status_code = 200, body = Some (JObj [(''prices'', JArr [])])\<rparr>))
        ''bitcoin'' 7 ''usd'' [] = (Some 0, [new_frame []])
   \<and> run_query exact_mean pd_raises
        (always (Returns \<lparr>status_code = 200, body = Some (JObj [(''prices'', JArr [])])\<rparr>))
        ''2026-01-01 00:00:00'' ''bitcoin'' ''Bitcoin'' 7 [] None
      = Inr (QueryFailed, [new_frame []], None)"
proof -
  let ?res = "\<lparr>status_code = 200, body = Some (JObj [(''prices'', JArr [])])\<rparr>"
  have a: "always (Returns ?res) ''bitcoin'' 7 ''usd'' = Returns ?res"
    by (simp add: always_def)
  have b: "body ?res = Some (JObj [(''prices'', JArr [])])" by simp
  have c: "py_subscript (JObj [(''prices'', JArr [])]) ''prices'' = Inr (JArr [])" by simp
  from empty_prices_explicit_empty_frame[where net = "always (Returns ?res)"
      and coin_id = "''bitcoin''" and days = 7 and res = ?res
      and data = "JObj [(''prices'', JArr [])]" and pd_other = pd_raises and h = "[]"
      and f64_mean = exact_mean
      and now = "''2026-01-01 00:00:00''" and coin_name = "''Bitcoin''" and hfile = None,
      OF a b c] a c
  show ?thesis by simp
qed

text \<open>
  C7, refuted as stated. The provider answers 500 with a body that has a well-formed
  \<open>prices\<close> list: the status code is never read, and \<open>get_price_history\<close> returns the
  frame of that list. The provider answers 200 with the body \<open>{"prices": null}\<close>, a
  malformed \<open>prices\<close> field: pandas raises nothing on it, and \<open>get_price_history\<close>
  returns a frame (with no row), not \<open>None\<close>.
\<close>

theorem status_500_counterexample:
  "get_price_history pd_raises
     (always (Returns \<lparr>status_code = 500,
        body = Some (JObj [(''prices'', JArr [JArr [JInt 1700000000000, JReal 42000]])])\<rparr>))
     ''bitcoin'' 7 ''usd'' [] = (Some 0, [new_frame [(1700000000000, 42000)]])
   \<and> get_price_history pd_raises
     (always (Returns \<lparr>status_code = 200, body = Some (JObj [(''prices'', JNull)])\<rparr>))
     ''bitcoin'' 7 ''usd'' [] = (Some 0, [new_frame []])"
  by (simp add: get_price_history_def requests_get_def res_json_def bind_err_def always_def
      pd_DataFrame_def in_datetime_range_def)

text \<open>
  C7, amended. \<open>get_price_history\<close> returns \<open>None\<close>, allocating no frame, exactly when
  an exception is raised inside its \<open>try\<close> block: the request raises (network error,
  timeout), the body of the response (of any status) is not JSON, the decoded value has
  no \<open>prices\<close> entry (it is a dictionary without the key, or not a dictionary), or pandas
  raises on the value of that entry (as it does on a number or a string). In every
  other case it returns one new frame, the whole frame pandas built. No exception
  leaves the function.
\<close>

theorem failing_fetch_returns_None:
  "(get_price_history pd_other net coin_id days vs_currency h = (None, h) \<longleftrightarrow>
        net coin_id days vs_currency = Raises
      \<or> (\<exists>res. net coin_id days vs_currency = Returns res
            \<and> (body res = None
               \<or> (\<exists>data. body res = Some data
                     \<and> ((\<exists>e. py_subscript data ''prices'' = Inl e)
                        \<or> (\<exists>v e. py_subscript data ''prices'' = Inr v
                              \<and> pd_DataFrame pd_other v = Inl e))))))
   \<and> (get_price_history pd_other net coin_id days vs_currency h = (None, h)
      \<or> (\<exists>res data v d.
            net coin_id days vs_currency = Returns res \<and> body res = Some data
          \<and> py_subscript data ''prices'' = Inr v \<and> pd_DataFrame pd_other v = Inr d
          \<and> get_price_history pd_other net coin_id days vs_currency h
              = (Some (length h), h @ [d])))
   \<and> (\<forall>items. map_of items ''prices'' = None \<longrightarrow>
         py_subscript (JObj items) ''prices'' = Inl KeyError)
   \<and> (\<forall>data. (\<forall>items. data \<noteq> JObj items) \<longrightarrow> py_subscript data ''prices'' = Inl TypeError)
   \<and> (\<forall>n. pd_DataFrame pd_other (JInt n) = Inl ValueError)
   \<and> (\<forall>x. pd_DataFrame pd_other (JReal x) = Inl ValueError)
   \<and> (\<forall>s. pd_DataFrame pd_other (JStr s) = Inl ValueError)"
proof -
  let ?g = "get_price_history pd_other net coin_id days vs_currency h"
  have key: "\<forall>items. map_of items ''prices'' = None \<longrightarrow>
         py_subscript (JObj items) ''prices'' = Inl KeyError"
    by simp
  have nodict: "\<forall>data. (\<forall>items. data \<noteq> JObj items) \<longrightarrow> py_subscript data ''prices'' = Inl TypeError"
  proof (intro allI impI)
    fix data :: json assume "\<forall>items. data \<noteq> JObj items"
    then show "py_subscript data ''prices'' = Inl TypeError" by (cases data) simp_all
  qed
  have sc: "(\<forall>n. pd_DataFrame pd_other (JInt n) = Inl ValueError)
   \<and> (\<forall>x. pd_DataFrame pd_other (JReal x) = Inl ValueError)
   \<and> (\<forall>s. pd_DataFrame pd_other (JStr s) = Inl ValueError)"
    by (simp add: pd_DataFrame_def)
  show ?thesis
  proof (cases "net coin_id days vs_currency")
    case Raises
    then have "?g = (None, h)"
      by (simp add: get_price_history_def requests_get_def bind_err_def)
    with Raises key nodict sc show ?thesis by simp
  next
    case (Returns res)
    show ?thesis
    proof (cases "body res")
      case None
      with Returns have "?g = (None, h)"
        by (simp add: get_price_history_def requests_get_def res_json_def bind_err_def)
      with Returns None key nodict sc show ?thesis by simp
    next
      case (Some data)
      show ?thesis
      proof (cases "py_subscript data ''prices''")
        case (Inl e)
        with Returns Some have "?g = (None, h)"
          by (simp add: get_price_history_def requests_get_def res_json_def bind_err_def)
        with Returns Some Inl key nodict sc show ?thesis by simp
      next
        case (Inr v)
        show ?thesis
        proof (cases "pd_DataFrame pd_other v")
          case (Inl e)
          with Returns Some Inr have "?g = (None, h)"
            by (simp add: get_price_history_def requests_get_def res_json_def bind_err_def)
          with Returns Some Inr Inl key nodict sc show ?thesis by simp
        next
          case d: (Inr d)
          with Returns Some Inr have "?g = (Some (length h), h @ [d])"
            by (simp add: get_price_history_def requests_get_def res_json_def bind_err_def)
          with Returns Some Inr d key nodict sc show ?thesis by simp
        qed
      qed
    qed
  qed
qed

theorem failing_fetch_returns_None_witness:
  "get_price_history pd_raises (always Raises) ''bitcoin'' 7 ''usd'' [] = (None, [])
   \<and> get_price_history pd_raises
        (always (Returns \<lparr>status_code = 502, body = None\<rparr>))
        ''bitcoin'' 7 ''usd'' [] = (None, [])
   \<and> map_of [(''error'', JStr ''internal'')] ''prices'' = None
   \<and> get_price_history pd_raises
        (always (Returns \<lparr>status_code = 500,
           body = Some (JObj [(''error'', JStr ''internal'')])\<rparr>))
        ''bitcoin'' 7 ''usd'' [] = (None, [])
   \<and> get_price_history pd_raises
        (always (Returns \<lparr>status_code = 200, body = Some (JArr [])\<rparr>))
        ''bitcoin'' 7 ''usd'' [] = (None, [])
   \<and> pd_DataFrame pd_raises (JStr ''n/a'') = Inl ValueError
   \<and> get_price_history pd_raises
        (always (Returns \<lparr>status_code = 200,
           body = Some (JObj [(''prices'', JStr ''n/a'')])\<rparr>))
        ''bitcoin'' 7 ''usd'' [] = (None, [])
   \<and> get_price_history pd_raises
        (always (Returns \<lparr>status_code = 200,
           body = Some (JObj [(''prices'', JArr [JArr [JInt 0, JInt 7]])])\<rparr>))
        ''bitcoin'' 7 ''usd'' [] \<noteq> (None, [])"
proof -
  let ?r2 = "\<lparr>status_code = 502, body = None\<rparr>"
  let ?r3 = "\<lparr>status_code = 500, body = Some (JObj [(''error'', JStr ''internal'')])\<rparr>"
  let ?r4 = "\<lparr>status_code = 200, body = Some (JArr [])\<rparr>"
  let ?r5 = "\<lparr>status_code = 200, body = Some (JObj [(''prices'', JStr ''n/a'')])\<rparr>"
  let ?r6 = "\<lparr>status_code = 200,
               body = Some (JObj [(''prices'', JArr [JArr [JInt 0, JInt 7]])])\<rparr>"
  note t = failing_fetch_returns_None[where pd_other = pd_raises and coin_id = "''bitcoin''"
      and days = 7 and vs_currency = "''usd''" and h = "[]"]
  have k: "map_of [(''error'', JStr ''internal'')] ''prices'' = None" by simp
  have n: "\<forall>items. JArr [] \<noteq> JObj items" by simp
  have 1: "get_price_history pd_raises (always Raises) ''bitcoin'' 7 ''usd'' [] = (None, [])"
    using t[where net = "always Raises"] by (simp add: always_def)
  have 2: "get_price_history pd_raises (always (Returns ?r2)) ''bitcoin'' 7 ''usd'' []
             = (None, [])"
    using t[where net = "always (Returns ?r2)"] by (simp add: always_def)
  from t[where net = "always (Returns ?r3)"] k
  have s3: "py_subscript (JObj [(''error'', JStr ''internal'')]) ''prices'' = Inl KeyError"
    by blast
  have 3: "get_price_history pd_raises (always (Returns ?r3)) ''bitcoin'' 7 ''usd'' []
             = (None, [])"
    using t[where net = "always (Returns ?r3)"] s3 by (simp add: always_def)
  from t[where net = "always (Returns ?r4)"] n
  have s4: "py_subscript (JArr []) ''prices'' = Inl TypeError"
    by blast
  have 4: "get_price_history pd_raises (always (Returns ?r4)) ''bitcoin'' 7 ''usd'' []
             = (None, [])"
    using t[where net = "always (Returns ?r4)"] s4 by (simp add: always_def)
  from t[where net = "always (Returns ?r5)"]
  have s5: "pd_DataFrame pd_raises (JStr ''n/a'') = Inl ValueError"
    by blast
  have 5: "get_price_history pd_raises (always (Returns ?r5)) ''bitcoin'' 7 ''usd'' []
             = (None, [])"
    using t[where net = "always (Returns ?r5)"] s5 by (simp add: always_def)
  have p6: "pd_DataFrame pd_raises (JArr [JArr [JInt 0, JInt 7]]) = Inr (new_frame [(0, 7)])"
    by (simp add: pd_DataFrame_def in_datetime_range_def)
  have 6: "get_price_history pd_raises (always (Returns ?r6)) ''bitcoin'' 7 ''usd'' []
             \<noteq> (None, [])"
    using t[where net = "always (Returns ?r6)"] p6 by (simp add: always_def)
  from 1 2 k 3 4 s5 5 6 show ?thesis by blast
qed

section \<open>Claims about the recorded recommendation\<close>







end
